theory Spec2Isabelle
  imports Main
begin

section \<open>Expressions\<close>

text \<open>
  The type \<^verbatim>\<open>Expr\<close> of the parser is a tagged union. Besides the seven variants the
  parser declares, the checker stores the object \<^verbatim>\<open>{ type: "sorry" }\<close> as the type of
  \<^verbatim>\<open>SORRY\<close>, so that tag is a variant as well. The index of a reference is a JavaScript
  number; the program only ever adds and subtracts integers, so it is an \<open>int\<close> here.
\<close>

datatype expr =
    Pi expr expr
  | Lambda expr expr
  | Application expr expr
  | Ident string
  | Error
  | Ref int
  | Binding string expr
  | Sorry

text \<open>The field \<^verbatim>\<open>type\<close> of an expression, which the error messages print.\<close>

fun type_tag :: "expr \<Rightarrow> string" where
  "type_tag (Pi _ _) = ''pi''"
| "type_tag (Lambda _ _) = ''lambda''"
| "type_tag (Application _ _) = ''application''"
| "type_tag (Ident _) = ''ident''"
| "type_tag Error = ''error''"
| "type_tag (Ref _) = ''ref''"
| "type_tag (Binding _ _) = ''binding''"
| "type_tag Sorry = ''sorry''"

text \<open>
  Every \<^verbatim>\<open>throw new Error(...)\<close> of the program is a constructor of \<open>error\<close>. Where the
  message prints expressions, the constructor carries the expressions.
\<close>

datatype error =
    NotDefined string
  | TypeOfError string
  | ReplaceError string
  | TypeMismatch expr expr expr
  | DontKnowHow
  | BindingOutside
  | RenameError
  | Unreachable
  | ProofFailed string expr expr expr
  | LexerConsumedNoInput

section \<open>Term kernel\<close>

text \<open>
  \<^verbatim>\<open>update_refs(value, inc)\<close>: three branches (\<^verbatim>\<open>ref\<close>, \<^verbatim>\<open>application\<close>, \<^verbatim>\<open>pi\<close>) and a
  final \<^verbatim>\<open>else\<close> that returns the value as it is.
\<close>

fun update_refs :: "expr \<Rightarrow> int \<Rightarrow> expr" where
  "update_refs (Ref index) inc = Ref (index + inc)"
| "update_refs (Application f v) inc =
     Application (update_refs f inc) (update_refs v inc)"
| "update_refs (Pi h t) inc = Pi (update_refs h inc) (update_refs t inc)"
| "update_refs e inc = e"

text \<open>
  \<^verbatim>\<open>replace(tail, value, depth)\<close>. The two recursive calls of a branch are evaluated in
  the order the object literal lists them, so the first one that throws decides the error.
\<close>

fun replace :: "expr \<Rightarrow> expr \<Rightarrow> int \<Rightarrow> error + expr" where
  "replace (Ref index) val depth =
     (if index = depth then Inr (update_refs val (index - 1))
      else if index > depth then Inr (Ref (index - 1))
      else Inr (Ref index))"
| "replace (Application f v) val depth =
     (case replace f val depth of
        Inl e \<Rightarrow> Inl e
      | Inr f' \<Rightarrow>
          (case replace v val depth of
             Inl e \<Rightarrow> Inl e
           | Inr v' \<Rightarrow> Inr (Application f' v')))"
| "replace (Pi h t) val depth =
     (case replace h val depth of
        Inl e \<Rightarrow> Inl e
      | Inr h' \<Rightarrow>
          (case replace t val (depth + 1) of
             Inl e \<Rightarrow> Inl e
           | Inr t' \<Rightarrow> Inr (Pi h' t')))"
| "replace (Ident ident) val depth = Inr (Ident ident)"
| "replace e val depth = Inl (ReplaceError (type_tag e))"

text \<open>
  \<^verbatim>\<open>simp_value(expr)\<close> calls itself on the result of a substitution, so it need not
  return: \<open>None\<close> is the run that never returns, \<open>Some (Inl e)\<close> the run that throws
  \<open>e\<close>, \<open>Some (Inr v)\<close> the run that returns \<open>v\<close>.
\<close>

partial_function (option) simp_value :: "expr \<Rightarrow> (error + expr) option" where
  "simp_value expr =
     (case expr of
        Application f v \<Rightarrow>
          (case f of
             Lambda h t \<Rightarrow>
               Option.bind (simp_value v) (\<lambda>rv.
                 case rv of
                   Inl e \<Rightarrow> Some (Inl e)
                 | Inr v' \<Rightarrow>
                     (case replace t v' 1 of
                        Inl e \<Rightarrow> Some (Inl e)
                      | Inr t' \<Rightarrow> simp_value t'))
           | _ \<Rightarrow>
               Option.bind (simp_value f) (\<lambda>rf.
                 case rf of
                   Inl e \<Rightarrow> Some (Inl e)
                 | Inr f' \<Rightarrow>
                     Option.bind (simp_value v) (\<lambda>rv.
                       case rv of
                         Inl e \<Rightarrow> Some (Inl e)
                       | Inr v' \<Rightarrow> Some (Inr (Application f' v')))))
      | Lambda h t \<Rightarrow>
          Option.bind (simp_value h) (\<lambda>rh.
            case rh of
              Inl e \<Rightarrow> Some (Inl e)
            | Inr h' \<Rightarrow>
                Option.bind (simp_value t) (\<lambda>rt.
                  case rt of
                    Inl e \<Rightarrow> Some (Inl e)
                  | Inr t' \<Rightarrow> Some (Inr (Lambda h' t'))))
      | Pi h t \<Rightarrow>
          Option.bind (simp_value h) (\<lambda>rh.
            case rh of
              Inl e \<Rightarrow> Some (Inl e)
            | Inr h' \<Rightarrow>
                Option.bind (simp_value t) (\<lambda>rt.
                  case rt of
                    Inl e \<Rightarrow> Some (Inl e)
                  | Inr t' \<Rightarrow> Some (Inr (Pi h' t'))))
      | _ \<Rightarrow> Some (Inr expr))"

declare simp_value.simps [code]


text \<open>
  \<^verbatim>\<open>deep_eq(a, b)\<close>. The conjunction \<^verbatim>\<open>&&\<close> stops at the first false operand, so the
  second comparison is made (and can throw) only when the first one returned true.
\<close>

fun deep_eq :: "expr \<Rightarrow> expr \<Rightarrow> error + bool" where
  "deep_eq (Application af av) b =
     (case b of
        Application bf bv \<Rightarrow>
          (case deep_eq af bf of
             Inl e \<Rightarrow> Inl e
           | Inr c \<Rightarrow> if c then deep_eq av bv else Inr False)
      | _ \<Rightarrow> Inr False)"
| "deep_eq (Lambda ah at) b =
     (case b of
        Lambda bh bt \<Rightarrow>
          (case deep_eq ah bh of
             Inl e \<Rightarrow> Inl e
           | Inr c \<Rightarrow> if c then deep_eq at bt else Inr False)
      | _ \<Rightarrow> Inr False)"
| "deep_eq (Pi ah at) b =
     (case b of
        Pi bh bt \<Rightarrow>
          (case deep_eq ah bh of
             Inl e \<Rightarrow> Inl e
           | Inr c \<Rightarrow> if c then deep_eq at bt else Inr False)
      | _ \<Rightarrow> Inr False)"
| "deep_eq (Ident a) b = (case b of Ident b' \<Rightarrow> Inr (a = b') | _ \<Rightarrow> Inr False)"
| "deep_eq (Ref i) b = (case b of Ref j \<Rightarrow> Inr (i = j) | _ \<Rightarrow> Inr False)"
| "deep_eq a b = Inl Unreachable"

section \<open>Global environment\<close>

text \<open>
  \<^verbatim>\<open>Defs = { [k: string]: { ty: Expr; def: Expr | null } }\<close>: an object used as a
  dictionary, here a map from names to entries. A name that is absent is \<open>None\<close>;
  the property names every JavaScript object inherits are not modelled.
\<close>

record entry =
  ty :: expr
  "def" :: "expr option"

type_synonym defs = "string \<rightharpoonup> entry"

text \<open>The two entries the program stores before it reads any declaration.\<close>

definition initial_defs :: defs where
  "initial_defs =
     [''Type'' \<mapsto> \<lparr>ty = Error, def = None\<rparr>,
      ''SORRY'' \<mapsto> \<lparr>ty = Sorry, def = None\<rparr>]"

section \<open>Type checker\<close>

text \<open>
  \<^verbatim>\<open>type_of\<close>, \<^verbatim>\<open>apply_type\<close> and \<^verbatim>\<open>member_of\<close> call each other. The array
  \<^verbatim>\<open>refs\<close> is pushed before and popped after the recursive call on the body of a
  lambda, so every call sees the stack its caller had, with the head appended: the stack
  is an argument here, its top the last element. \<^verbatim>\<open>refs[refs.length - index]\<close> is
  \<^verbatim>\<open>undefined\<close> outside the array, and then the reference itself is returned.
  The result is an option because \<^verbatim>\<open>apply_type\<close> calls \<^verbatim>\<open>simp_value\<close>.
\<close>

fun type_of :: "defs \<Rightarrow> expr \<Rightarrow> expr list \<Rightarrow> (error + expr) option"
  and apply_type :: "defs \<Rightarrow> expr \<Rightarrow> expr \<Rightarrow> expr list \<Rightarrow> (error + expr) option"
  and member_of :: "defs \<Rightarrow> expr \<Rightarrow> expr \<Rightarrow> expr list \<Rightarrow> (error + bool) option"
where
  "type_of defs (Ident ident) refs =
     (case defs ident of
        None \<Rightarrow> Some (Inl (NotDefined ident))
      | Some d \<Rightarrow> Some (Inr (ty d)))"
| "type_of defs (Lambda h t) refs =
     (case type_of defs t (refs @ [h]) of
        None \<Rightarrow> None
      | Some (Inl e) \<Rightarrow> Some (Inl e)
      | Some (Inr r) \<Rightarrow> Some (Inr (Pi h r)))"
| "type_of defs (Pi h t) refs = Some (Inr (Ident ''Type''))"
| "type_of defs (Ref index) refs =
     (let j = int (length refs) - index in
      if 0 \<le> j \<and> j < int (length refs)
      then Some (Inr (update_refs (refs ! nat j) index))
      else Some (Inr (Ref index)))"
| "type_of defs (Application f v) refs =
     (case type_of defs f refs of
        None \<Rightarrow> None
      | Some (Inl e) \<Rightarrow> Some (Inl e)
      | Some (Inr fun_ty) \<Rightarrow> apply_type defs fun_ty v refs)"
| "type_of defs Error refs = Some (Inl (TypeOfError (type_tag Error)))"
| "type_of defs (Binding n b) refs = Some (Inl (TypeOfError (type_tag (Binding n b))))"
| "type_of defs Sorry refs = Some (Inl (TypeOfError (type_tag Sorry)))"
| "apply_type defs (Pi h t) val refs =
     (case member_of defs val h refs of
        None \<Rightarrow> None
      | Some (Inl e) \<Rightarrow> Some (Inl e)
      | Some (Inr ok) \<Rightarrow>
          if \<not> ok then
            (case type_of defs val refs of
               None \<Rightarrow> None
             | Some (Inl e) \<Rightarrow> Some (Inl e)
             | Some (Inr vt) \<Rightarrow> Some (Inl (TypeMismatch val vt h)))
          else
            (case replace t val 1 of
               Inl e \<Rightarrow> Some (Inl e)
             | Inr r \<Rightarrow> simp_value r))"
| "apply_type defs Sorry val refs = Some (Inr val)"
| "apply_type defs (Lambda _ _) val refs = Some (Inl DontKnowHow)"
| "apply_type defs (Application _ _) val refs = Some (Inl DontKnowHow)"
| "apply_type defs (Ident _) val refs = Some (Inl DontKnowHow)"
| "apply_type defs Error val refs = Some (Inl DontKnowHow)"
| "apply_type defs (Ref _) val refs = Some (Inl DontKnowHow)"
| "apply_type defs (Binding _ _) val refs = Some (Inl DontKnowHow)"
| "member_of defs e tau refs =
     (case type_of defs e refs of
        None \<Rightarrow> None
      | Some (Inl err) \<Rightarrow> Some (Inl err)
      | Some (Inr t) \<Rightarrow> Some (deep_eq t tau))"

section \<open>Resolver\<close>

text \<open>
  The loop of \<^verbatim>\<open>rename\<close> that looks an identifier up in \<^verbatim>\<open>bound\<close>, from the last
  entry backwards: \<^verbatim>\<open>bound[bound.length - i]\<close> for \<open>i = 1, 2, ...\<close> is the reversed
  list read from its head. An anonymous binder is \<^verbatim>\<open>null\<close>, which equals no identifier.
\<close>

fun find_bound :: "string option list \<Rightarrow> string \<Rightarrow> int \<Rightarrow> int option" where
  "find_bound [] ident i = None"
| "find_bound (b # bs) ident i =
     (if b = Some ident then Some i else find_bound bs ident (i + 1))"

text \<open>
  \<^verbatim>\<open>rename(defs, expr, bound)\<close>. The name of a binder is pushed after its type has been
  renamed and popped after the body has been, so the stack is an argument. An expression
  tagged \<^verbatim>\<open>sorry\<close> matches no branch and reaches the final \<^verbatim>\<open>throw\<close>.
\<close>

fun rename :: "defs \<Rightarrow> expr \<Rightarrow> string option list \<Rightarrow> error + expr" where
  "rename defs (Application f v) bound =
     (case rename defs f bound of
        Inl e \<Rightarrow> Inl e
      | Inr f' \<Rightarrow>
          (case rename defs v bound of
             Inl e \<Rightarrow> Inl e
           | Inr v' \<Rightarrow> Inr (Application f' v')))"
| "rename defs (Lambda (Binding ident b) t) bound =
     (case rename defs b bound of
        Inl e \<Rightarrow> Inl e
      | Inr new_head \<Rightarrow>
          (case rename defs t (bound @ [Some ident]) of
             Inl e \<Rightarrow> Inl e
           | Inr t' \<Rightarrow> Inr (Lambda new_head t')))"
| "rename defs (Lambda h t) bound =
     (case rename defs h bound of
        Inl e \<Rightarrow> Inl e
      | Inr new_head \<Rightarrow>
          (case rename defs t (bound @ [None]) of
             Inl e \<Rightarrow> Inl e
           | Inr t' \<Rightarrow> Inr (Lambda new_head t')))"
| "rename defs (Pi (Binding ident b) t) bound =
     (case rename defs b bound of
        Inl e \<Rightarrow> Inl e
      | Inr new_head \<Rightarrow>
          (case rename defs t (bound @ [Some ident]) of
             Inl e \<Rightarrow> Inl e
           | Inr t' \<Rightarrow> Inr (Pi new_head t')))"
| "rename defs (Pi h t) bound =
     (case rename defs h bound of
        Inl e \<Rightarrow> Inl e
      | Inr new_head \<Rightarrow>
          (case rename defs t (bound @ [None]) of
             Inl e \<Rightarrow> Inl e
           | Inr t' \<Rightarrow> Inr (Pi new_head t')))"
| "rename defs (Ident ident) bound =
     (case find_bound (rev bound) ident 1 of
        Some i \<Rightarrow> Inr (Ref i)
      | None \<Rightarrow>
          (case defs ident of
             Some d \<Rightarrow>
               (case def d of
                  Some body \<Rightarrow> Inr body
                | None \<Rightarrow> Inr (Ident ident))
           | None \<Rightarrow> Inl (NotDefined ident)))"
| "rename defs (Binding _ _) bound = Inl BindingOutside"
| "rename defs Error bound = Inl RenameError"
| "rename defs (Ref _) bound = Inl RenameError"
| "rename defs Sorry bound = Inl Unreachable"

section \<open>Driver\<close>

text \<open>
  A parsed declaration, \<^verbatim>\<open>{ type: "statement", ident, ty, def }\<close>.
\<close>

datatype statement = Statement string expr "expr option"

fun stmt_ident :: "statement \<Rightarrow> string" where
  "stmt_ident (Statement name _ _) = name"

text \<open>
  What a run does besides computing: a line printed with \<^verbatim>\<open>console.log\<close>, or a file
  written with the \<^verbatim>\<open>write\<close> that the first line of the program imports.
\<close>

datatype effect = ConsoleLog string | WriteFile string string

text \<open>
  The body of the loop over the declarations: the new environment and the lines printed,
  or the error thrown. The message of a failed proof computes \<^verbatim>\<open>type_of\<close> once more.
\<close>

fun check_statement :: "defs \<Rightarrow> statement \<Rightarrow> (error + defs \<times> effect list) option" where
  "check_statement defs (Statement name sty sdef) =
     (case rename defs sty [] of
        Inl e \<Rightarrow> Some (Inl e)
      | Inr tau \<Rightarrow>
          (case sdef of
             None \<Rightarrow> Some (Inr (defs(name \<mapsto> \<lparr>ty = tau, def = None\<rparr>), []))
           | Some sd \<Rightarrow>
               (case rename defs sd [] of
                  Inl e \<Rightarrow> Some (Inl e)
                | Inr d \<Rightarrow>
                    (case member_of defs d tau [] of
                       None \<Rightarrow> None
                     | Some (Inl e) \<Rightarrow> Some (Inl e)
                     | Some (Inr ok) \<Rightarrow>
                         if ok then
                           Some (Inr (defs(name \<mapsto> \<lparr>ty = tau, def = Some d\<rparr>),
                             [ConsoleLog (''Proof '' @ [CHR 0x27] @ name @ [CHR 0x27]
                                @ '' passed'')]))
                         else
                           (case type_of defs d [] of
                              None \<Rightarrow> None
                            | Some (Inl e) \<Rightarrow> Some (Inl e)
                            | Some (Inr dt) \<Rightarrow>
                                Some (Inl (ProofFailed name d dt tau)))))))"

text \<open>
  How a run ends: after the last declaration, with the final environment, or at the first
  error. Either way the effects up to that point have happened.
\<close>

datatype outcome = Finished defs "effect list" | Aborted error "effect list"

fun for_loop :: "defs \<Rightarrow> effect list \<Rightarrow> statement list \<Rightarrow> outcome option" where
  "for_loop defs fx [] = Some (Finished defs fx)"
| "for_loop defs fx (stmt # rest) =
     (case check_statement defs stmt of
        None \<Rightarrow> None
      | Some (Inl e) \<Rightarrow> Some (Aborted e fx)
      | Some (Inr (defs', out)) \<Rightarrow> for_loop defs' (fx @ out) rest)"

text \<open>
  The program after parsing: the two seeded entries, then the loop. Nothing follows the
  loop in the source file.
\<close>

definition program :: "statement list \<Rightarrow> outcome option" where
  "program ast = for_loop initial_defs [] ast"

text \<open>Observations of a run: the entry registered for a name, and the files written.\<close>

fun registered :: "outcome option \<Rightarrow> string \<Rightarrow> entry option" where
  "registered (Some (Finished defs fx)) name = defs name"
| "registered _ name = None"

fun effects_of :: "outcome option \<Rightarrow> effect list" where
  "effects_of (Some (Finished defs fx)) = fx"
| "effects_of (Some (Aborted e fx)) = fx"
| "effects_of None = []"

fun is_write :: "effect \<Rightarrow> bool" where
  "is_write (WriteFile _ _) = True"
| "is_write (ConsoleLog _) = False"

definition files_written :: "outcome option \<Rightarrow> effect list" where
  "files_written r = filter is_write (effects_of r)"

fun thrown :: "outcome option \<Rightarrow> error option" where
  "thrown (Some (Aborted e fx)) = Some e"
| "thrown _ = None"

section \<open>Lexer\<close>

datatype token =
    TIdent string
  | TPunct string
  | TWhitespace
  | TComment string

text \<open>The character classes \<^verbatim>\<open>[A-Za-z0-9\._]\<close> and \<^verbatim>\<open>[\t\r\n ]\<close>.\<close>

definition is_ident_char :: "char \<Rightarrow> bool" where
  "is_ident_char c =
     (let n = (of_char c :: nat) in
      (65 \<le> n \<and> n \<le> 90) \<or> (97 \<le> n \<and> n \<le> 122) \<or> (48 \<le> n \<and> n \<le> 57)
      \<or> c = CHR ''.'' \<or> c = CHR ''_'')"

definition is_ws_char :: "char \<Rightarrow> bool" where
  "is_ws_char c = (c = CHR 0x09 \<or> c = CHR 0x0D \<or> c = CHR 0x0A \<or> c = CHR '' '')"

text \<open>
  The part \<^verbatim>\<open>([^\*]|\*[^\/])*\*\/\<close> of the block comment pattern, matched the way the
  regular expression engine does: the star is greedy, so at each position an iteration
  is tried first, its first alternative (one character other than \<^verbatim>\<open>*\<close>) before its
  second (a \<^verbatim>\<open>*\<close> and one character other than \<^verbatim>\<open>/\<close>); only when no iteration
  leads to a match is the loop left and \<^verbatim>\<open>*/\<close> tried at that position. The result is
  the number of characters matched.
\<close>

fun block_cmt_rest :: "string \<Rightarrow> nat option" where
  "block_cmt_rest [] = None"
| "block_cmt_rest (c # cs) =
     (case (if c \<noteq> CHR ''*'' then map_option Suc (block_cmt_rest cs)
            else (case cs of
                    [] \<Rightarrow> None
                  | d # ds \<Rightarrow>
                      if d \<noteq> CHR ''/'' then map_option (\<lambda>n. n + 2) (block_cmt_rest ds)
                      else None)) of
        Some n \<Rightarrow> Some n
      | None \<Rightarrow> if take 2 (c # cs) = ''*/'' then Some 2 else None)"

text \<open>The four sticky patterns, each giving the text it matches at the head of a string.\<close>

definition ident_regex :: "string \<Rightarrow> string option" where
  "ident_regex s = (let m = takeWhile is_ident_char s in if m = [] then None else Some m)"

definition ws_regex :: "string \<Rightarrow> string option" where
  "ws_regex s = (let m = takeWhile is_ws_char s in if m = [] then None else Some m)"

definition line_cmt_regex :: "string \<Rightarrow> string option" where
  "line_cmt_regex s =
     (if take 2 s = ''//'' then Some (''//'' @ takeWhile (\<lambda>c. c \<noteq> CHR 0x0A) (drop 2 s))
      else None)"

definition block_cmt_regex :: "string \<Rightarrow> string option" where
  "block_cmt_regex s =
     (if take 2 s = ''/*'' then
        (case block_cmt_rest (drop 2 s) of
           None \<Rightarrow> None
         | Some n \<Rightarrow> Some (take (2 + n) s))
      else None)"

definition ops :: "string list" where
  "ops = [''=>'', ''->'', '':='', ''('', '')'', '':'', '';'']"

text \<open>
  \<^verbatim>\<open>lex(text, start)\<close>: the patterns in the order of the source, then the first
  operator that the text starts with at \<^verbatim>\<open>start\<close>, then the error.
\<close>

definition lex :: "string \<Rightarrow> nat \<Rightarrow> error + token \<times> nat" where
  "lex text start =
     (let s = drop start text in
      case ident_regex s of
        Some m \<Rightarrow> Inr (TIdent m, start + length m)
      | None \<Rightarrow>
     (case ws_regex s of
        Some m \<Rightarrow> Inr (TWhitespace, start + length m)
      | None \<Rightarrow>
     (case line_cmt_regex s of
        Some m \<Rightarrow> Inr (TComment m, start + length m)
      | None \<Rightarrow>
     (case block_cmt_regex s of
        Some m \<Rightarrow> Inr (TComment m, start + length m)
      | None \<Rightarrow>
     (case find (\<lambda>op. take (length op) s = op) ops of
        Some op \<Rightarrow> Inr (TPunct op, start + length op)
      | None \<Rightarrow> Inl LexerConsumedNoInput)))))"

section \<open>Notions used in the statements\<close>

text \<open>Shapes of expressions that the statements below speak about.\<close>

fun is_lambda :: "expr \<Rightarrow> bool" where
  "is_lambda (Lambda _ _) = True"
| "is_lambda _ = False"

text \<open>The expression contains a \<open>Lambda\<close> node at some position.\<close>

fun has_lambda :: "expr \<Rightarrow> bool" where
  "has_lambda (Lambda _ _) = True"
| "has_lambda (Pi h t) = (has_lambda h \<or> has_lambda t)"
| "has_lambda (Application f v) = (has_lambda f \<or> has_lambda v)"
| "has_lambda (Binding _ b) = has_lambda b"
| "has_lambda _ = False"

text \<open>A kernel expression, the result of renaming: no \<open>Binding\<close> node is left.\<close>

fun is_kernel :: "expr \<Rightarrow> bool" where
  "is_kernel (Pi h t) = (is_kernel h \<and> is_kernel t)"
| "is_kernel (Lambda h t) = (is_kernel h \<and> is_kernel t)"
| "is_kernel (Application f v) = (is_kernel f \<and> is_kernel v)"
| "is_kernel (Binding _ _) = False"
| "is_kernel _ = True"

text \<open>The expression contains an application whose function is a \<open>Lambda\<close> node.\<close>

fun has_redex :: "expr \<Rightarrow> bool" where
  "has_redex (Application f v) = (is_lambda f \<or> has_redex f \<or> has_redex v)"
| "has_redex (Lambda h t) = (has_redex h \<or> has_redex t)"
| "has_redex (Pi h t) = (has_redex h \<or> has_redex t)"
| "has_redex (Binding _ b) = has_redex b"
| "has_redex _ = False"

text \<open>
  The shift as the specification words it, for comparison with \<open>update_refs\<close>: add
  \<open>k\<close> to the index of every \<open>Ref\<close> of the expression, wherever it occurs, inside
  lambdas too, with no adjustment for depth.
\<close>

fun shift_every_ref :: "expr \<Rightarrow> int \<Rightarrow> expr" where
  "shift_every_ref (Ref index) k = Ref (index + k)"
| "shift_every_ref (Application f v) k =
     Application (shift_every_ref f k) (shift_every_ref v k)"
| "shift_every_ref (Pi h t) k = Pi (shift_every_ref h k) (shift_every_ref t k)"
| "shift_every_ref (Lambda h t) k = Lambda (shift_every_ref h k) (shift_every_ref t k)"
| "shift_every_ref (Binding n b) k = Binding n (shift_every_ref b k)"
| "shift_every_ref e k = e"

text \<open>
  The shift of free references only, as the specification words the type of a reference:
  add \<open>k\<close> to the index of every free \<open>Ref\<close>, a reference being free when its index
  exceeds the number \<open>c\<close> of binders of the expression that it stands under.
\<close>

fun shift_free_refs :: "expr \<Rightarrow> int \<Rightarrow> int \<Rightarrow> expr" where
  "shift_free_refs (Ref index) k c = (if index > c then Ref (index + k) else Ref index)"
| "shift_free_refs (Application f v) k c =
     Application (shift_free_refs f k c) (shift_free_refs v k c)"
| "shift_free_refs (Pi h t) k c =
     Pi (shift_free_refs h k c) (shift_free_refs t k (c + 1))"
| "shift_free_refs (Lambda h t) k c =
     Lambda (shift_free_refs h k c) (shift_free_refs t k (c + 1))"
| "shift_free_refs (Binding n b) k c = Binding n (shift_free_refs b k c)"
| "shift_free_refs e k c = e"

text \<open>The call \<^verbatim>\<open>simp_value(simp_value(e))\<close>: the second call is made when the first returns.\<close>

definition simp_value_twice :: "expr \<Rightarrow> (error + expr) option" where
  "simp_value_twice e =
     Option.bind (simp_value e) (\<lambda>r.
       case r of
         Inl err \<Rightarrow> Some (Inl err)
       | Inr v \<Rightarrow> simp_value v)"

text \<open>
  The self application \<open>(x : T) => x x\<close> applied to itself, after renaming.
\<close>

definition dup :: expr where
  "dup = Lambda (Ident ''T'') (Application (Ref 1) (Ref 1))"

definition omega :: expr where
  "omega = Application dup dup"

text \<open>
  Two applications: the identity on \<open>T\<close> applied to a constant function and then to
  \<open>d\<close>, and the term it normalises to.
\<close>

definition apply_id_const :: expr where
  "apply_id_const =
     Application
       (Application (Lambda (Ident ''T'') (Ref 1)) (Lambda (Ident ''A'') (Ident ''c'')))
       (Ident ''d'')"

definition apply_const :: expr where
  "apply_const = Application (Lambda (Ident ''A'') (Ident ''c'')) (Ident ''d'')"

text \<open>
  Parsed input files. The first is \<^verbatim>\<open>Nat : Type; zero : Nat := SORRY Nat;\<close>.
\<close>

definition sorry_program :: "statement list" where
  "sorry_program =
     [Statement ''Nat'' (Ident ''Type'') None,
      Statement ''zero'' (Ident ''Nat'')
        (Some (Application (Ident ''SORRY'') (Ident ''Nat'')))]"

text \<open>The file \<^verbatim>\<open>bad : Nat;\<close>.\<close>

definition bad_program :: "statement list" where
  "bad_program = [Statement ''bad'' (Ident ''Nat'') None]"

text \<open>The file \<^verbatim>\<open>Nat : Type;\<close>.\<close>

definition nat_program :: "statement list" where
  "nat_program = [Statement ''Nat'' (Ident ''Type'') None]"

text \<open>
  The file
  \<^verbatim>\<open>P : (Type -> Type) -> Type;\<close>
  \<^verbatim>\<open>t : (T : Type) -> (h : P ((x : Type) => T)) -> P ((x : Type) => T)\<close>
  \<^verbatim>\<open>  := (T : Type) => (h : P ((x : Type) => T)) => h;\<close>
  whose second declaration is the identity function on \<open>P (\<lambda>x. T)\<close>.
\<close>

definition lambda_head_program :: "statement list" where
  "lambda_head_program =
     [Statement ''P'' (Pi (Pi (Ident ''Type'') (Ident ''Type'')) (Ident ''Type'')) None,
      Statement ''t''
        (Pi (Binding ''T'' (Ident ''Type''))
           (Pi (Binding ''h'' (Application (Ident ''P'')
                  (Lambda (Binding ''x'' (Ident ''Type'')) (Ident ''T''))))
               (Application (Ident ''P'')
                  (Lambda (Binding ''x'' (Ident ''Type'')) (Ident ''T'')))))
        (Some (Lambda (Binding ''T'' (Ident ''Type''))
           (Lambda (Binding ''h'' (Application (Ident ''P'')
                  (Lambda (Binding ''x'' (Ident ''Type'')) (Ident ''T''))))
               (Ident ''h''))))]"

text \<open>
  The file
  \<^verbatim>\<open>Q : (T : Type) -> (T -> T) -> Type;\<close>
  \<^verbatim>\<open>F : (T : Type) -> (g : T -> T) -> (y : T) -> Q T g;\<close>
  \<^verbatim>\<open>t : (T : Type) -> (y : T) -> Q T ((x : T) => x) := (T : Type) => F T ((x : T) => x);\<close>
  whose last declaration applies \<open>F\<close> to the identity function on \<open>T\<close>.
\<close>

definition lambda_value_program :: "statement list" where
  "lambda_value_program =
     [Statement ''Q''
        (Pi (Binding ''T'' (Ident ''Type''))
           (Pi (Pi (Ident ''T'') (Ident ''T'')) (Ident ''Type''))) None,
      Statement ''F''
        (Pi (Binding ''T'' (Ident ''Type''))
           (Pi (Binding ''g'' (Pi (Ident ''T'') (Ident ''T'')))
              (Pi (Binding ''y'' (Ident ''T''))
                 (Application (Application (Ident ''Q'') (Ident ''T'')) (Ident ''g'')))))
        None,
      Statement ''t''
        (Pi (Binding ''T'' (Ident ''Type''))
           (Pi (Binding ''y'' (Ident ''T''))
              (Application (Application (Ident ''Q'') (Ident ''T''))
                 (Lambda (Binding ''x'' (Ident ''T'')) (Ident ''x'')))))
        (Some (Lambda (Binding ''T'' (Ident ''Type''))
           (Application (Application (Ident ''F'') (Ident ''T''))
              (Lambda (Binding ''x'' (Ident ''T'')) (Ident ''x'')))))]"

text \<open>
  The file
  \<^verbatim>\<open>Nat : Type; zero : Nat; P : Nat -> Type;\<close>
  \<^verbatim>\<open>ax : (f : Nat -> Nat) -> P (f zero);\<close>
  \<^verbatim>\<open>t : P zero := ax (((h : Nat -> Nat) => h) ((x : Nat) => x));\<close>
  whose last declaration passes to \<open>ax\<close> the identity function on \<open>Nat\<close>, written
  as an application that reduces to it.
\<close>

definition redex_argument_program :: "statement list" where
  "redex_argument_program =
     [Statement ''Nat'' (Ident ''Type'') None,
      Statement ''zero'' (Ident ''Nat'') None,
      Statement ''P'' (Pi (Ident ''Nat'') (Ident ''Type'')) None,
      Statement ''ax''
        (Pi (Binding ''f'' (Pi (Ident ''Nat'') (Ident ''Nat'')))
           (Application (Ident ''P'') (Application (Ident ''f'') (Ident ''zero'')))) None,
      Statement ''t'' (Application (Ident ''P'') (Ident ''zero''))
        (Some (Application (Ident ''ax'')
           (Application
              (Lambda (Binding ''h'' (Pi (Ident ''Nat'') (Ident ''Nat''))) (Ident ''h''))
              (Lambda (Binding ''x'' (Ident ''Nat'')) (Ident ''x'')))))]"

text \<open>
  The same file with the argument of \<open>ax\<close> reduced by hand:
  \<^verbatim>\<open>t : P zero := ax ((x : Nat) => x);\<close>
\<close>

definition reduced_argument_program :: "statement list" where
  "reduced_argument_program =
     [Statement ''Nat'' (Ident ''Type'') None,
      Statement ''zero'' (Ident ''Nat'') None,
      Statement ''P'' (Pi (Ident ''Nat'') (Ident ''Type'')) None,
      Statement ''ax''
        (Pi (Binding ''f'' (Pi (Ident ''Nat'') (Ident ''Nat'')))
           (Application (Ident ''P'') (Application (Ident ''f'') (Ident ''zero'')))) None,
      Statement ''t'' (Application (Ident ''P'') (Ident ''zero''))
        (Some (Application (Ident ''ax'')
           (Lambda (Binding ''x'' (Ident ''Nat'')) (Ident ''x''))))]"

text \<open>Whether a run reaches the end of the loop.\<close>

fun finished :: "outcome option \<Rightarrow> bool" where
  "finished (Some (Finished defs fx)) = True"
| "finished _ = False"

section \<open>Unfolding the normaliser\<close>

text \<open>
  The equation of \<open>simp_value\<close> mentions \<open>simp_value\<close> again, so it is unfolded one
  constructor at a time.
\<close>

lemma simp_value_Application_Lambda:
  "simp_value (Application (Lambda h t) v) =
     Option.bind (simp_value v) (\<lambda>rv.
       case rv of
         Inl e \<Rightarrow> Some (Inl e)
       | Inr v' \<Rightarrow>
           (case replace t v' 1 of
              Inl e \<Rightarrow> Some (Inl e)
            | Inr t' \<Rightarrow> simp_value t'))"
  by (subst simp_value.simps) simp

lemma simp_value_Application_other:
  "\<not> is_lambda f \<Longrightarrow>
   simp_value (Application f v) =
     Option.bind (simp_value f) (\<lambda>rf.
       case rf of
         Inl e \<Rightarrow> Some (Inl e)
       | Inr f' \<Rightarrow>
           Option.bind (simp_value v) (\<lambda>rv.
             case rv of
               Inl e \<Rightarrow> Some (Inl e)
             | Inr v' \<Rightarrow> Some (Inr (Application f' v'))))"
  by (subst simp_value.simps) (cases f; simp)

lemma simp_value_Lambda:
  "simp_value (Lambda h t) =
     Option.bind (simp_value h) (\<lambda>rh.
       case rh of
         Inl e \<Rightarrow> Some (Inl e)
       | Inr h' \<Rightarrow>
           Option.bind (simp_value t) (\<lambda>rt.
             case rt of
               Inl e \<Rightarrow> Some (Inl e)
             | Inr t' \<Rightarrow> Some (Inr (Lambda h' t'))))"
  by (subst simp_value.simps) simp

lemma simp_value_Pi:
  "simp_value (Pi h t) =
     Option.bind (simp_value h) (\<lambda>rh.
       case rh of
         Inl e \<Rightarrow> Some (Inl e)
       | Inr h' \<Rightarrow>
           Option.bind (simp_value t) (\<lambda>rt.
             case rt of
               Inl e \<Rightarrow> Some (Inl e)
             | Inr t' \<Rightarrow> Some (Inr (Pi h' t'))))"
  by (subst simp_value.simps) simp

lemma simp_value_leaf:
  "simp_value (Ident n) = Some (Inr (Ident n))"
  "simp_value (Ref i) = Some (Inr (Ref i))"
  "simp_value Error = Some (Inr Error)"
  "simp_value Sorry = Some (Inr Sorry)"
  "simp_value (Binding n b) = Some (Inr (Binding n b))"
  by (subst simp_value.simps, simp)+

lemmas simp_value_unfold =
  simp_value_Application_Lambda simp_value_Application_other simp_value_Lambda
  simp_value_Pi simp_value_leaf

section \<open>Index shifting\<close>

text \<open>What \<open>update_refs\<close> does at a lambda, and where it agrees with the specified shift.\<close>

lemma update_refs_Lambda: "update_refs (Lambda h t) k = Lambda h t"
  by simp

lemma update_refs_without_lambda:
  "is_kernel e \<Longrightarrow> \<not> has_lambda e \<Longrightarrow> update_refs e k = shift_every_ref e k"
  by (induction e) auto

lemma update_refs_compose:
  "update_refs (update_refs e j) k = update_refs e (j + k)"
  by (induction e) (simp_all add: add.assoc)

text \<open>
  Claim C3. The specification has the shift add \<open>k\<close> to every reference of the
  expression, those inside the head and the body of a lambda included. On the head
  \<open>P ((x : Type) => T)\<close> of the second binder of \<open>lambda_head_program\<close>, whose body
  mentions the outer binder as \<open>Ref 2\<close>, \<open>update_refs\<close> returns the expression as it
  is, where the specified shift by one gives \<open>Ref 3\<close>.
\<close>

theorem update_refs_skips_lambda:
  "update_refs (Application (Ident ''P'') (Lambda (Ident ''Type'') (Ref 2))) 1
     = Application (Ident ''P'') (Lambda (Ident ''Type'') (Ref 2))
   \<and> shift_every_ref (Application (Ident ''P'') (Lambda (Ident ''Type'') (Ref 2))) 1
     = Application (Ident ''P'') (Lambda (Ident ''Type'') (Ref 3))"
  by simp

text \<open>
  The same input reached from a source file: the identity function on \<open>P (\<lambda>x. T)\<close> is
  rejected, because the type computed for \<open>h\<close> still says \<open>Ref 2\<close> one binder further
  in, where the declared type says \<open>Ref 3\<close>.
\<close>

lemma lambda_head_program_rejected:
  "thrown (program lambda_head_program) =
     Some (ProofFailed ''t''
       (Lambda (Ident ''Type'')
         (Lambda (Application (Ident ''P'') (Lambda (Ident ''Type'') (Ref 2))) (Ref 1)))
       (Pi (Ident ''Type'')
         (Pi (Application (Ident ''P'') (Lambda (Ident ''Type'') (Ref 2)))
           (Application (Ident ''P'') (Lambda (Ident ''Type'') (Ref 2)))))
       (Pi (Ident ''Type'')
         (Pi (Application (Ident ''P'') (Lambda (Ident ''Type'') (Ref 2)))
           (Application (Ident ''P'') (Lambda (Ident ''Type'') (Ref 3))))))"
  by (simp add: program_def lambda_head_program_def initial_defs_def)

section \<open>Substitution\<close>

text \<open>
  The rules of \<open>replace\<close>, with the program's \<open>update_refs\<close> as the shift: a
  reference whose index equals the depth becomes the value shifted by the depth less
  one; a reference with a larger index loses one; a reference with a smaller index
  stays; an application is rebuilt from the results for its two components at the same
  depth; a \<open>Pi\<close> from the result for its head at the depth and for its tail one deeper;
  an identifier stays. In an application and in a \<open>Pi\<close> the first component that
  throws decides the error.
\<close>

lemma replace_rules:
  "replace (Ref d) val d = Inr (update_refs val (d - 1))
   \<and> (i > d \<longrightarrow> replace (Ref i) val d = Inr (Ref (i - 1)))
   \<and> (i < d \<longrightarrow> replace (Ref i) val d = Inr (Ref i))
   \<and> (replace f val d = Inr f' \<and> replace v val d = Inr v'
        \<longrightarrow> replace (Application f v) val d = Inr (Application f' v'))
   \<and> (replace f val d = Inl err \<longrightarrow> replace (Application f v) val d = Inl err)
   \<and> (replace f val d = Inr f' \<and> replace v val d = Inl err
        \<longrightarrow> replace (Application f v) val d = Inl err)
   \<and> (replace h val d = Inr h' \<and> replace t val (d + 1) = Inr t'
        \<longrightarrow> replace (Pi h t) val d = Inr (Pi h' t'))
   \<and> (replace h val d = Inl err \<longrightarrow> replace (Pi h t) val d = Inl err)
   \<and> (replace h val d = Inr h' \<and> replace t val (d + 1) = Inl err
        \<longrightarrow> replace (Pi h t) val d = Inl err)
   \<and> replace (Ident n) val d = Inr (Ident n)"
  by simp

text \<open>
  For a value without a lambda the first rule is the specified one: the reference is
  replaced by the value with every reference in it increased by the depth less one.
\<close>

lemma replace_Ref_without_lambda:
  "is_kernel val \<Longrightarrow> \<not> has_lambda val \<Longrightarrow>
   replace (Ref d) val d = Inr (shift_every_ref val (d - 1))"
  by (simp add: update_refs_without_lambda)

text \<open>
  Claim C1. The specification has \<open>replace\<close> put, for a reference whose index equals
  the depth \<open>d\<close>, the value with every reference in it increased by \<open>d - 1\<close>; the
  other rules (a larger index loses one, a smaller index stays, applications and \<open>Pi\<close>
  are rebuilt from their components, the tail of a \<open>Pi\<close> one deeper, identifiers stay)
  hold as stated. The value is shifted with \<open>update_refs\<close>, which returns a lambda as
  it is: at depth \<open>2\<close> the identity function \<open>(x : T) => x\<close>, whose head mentions the
  enclosing binder as \<open>Ref 1\<close>, is put in unchanged, where every reference increased by
  one gives \<open>Ref 2\<close>.
\<close>

theorem replace_value_with_lambda:
  "replace (Ref 2) (Lambda (Ref 1) (Ref 1)) 2 = Inr (Lambda (Ref 1) (Ref 1))
   \<and> shift_every_ref (Lambda (Ref 1) (Ref 1)) (2 - 1) = Lambda (Ref 2) (Ref 2)"
  by simp

text \<open>
  That call is made when \<open>lambda_value_program\<close> is checked: the type of
  \<open>F T\<close> is \<open>(g : T -> T) -> (y : T) -> Q T g\<close>, and the identity function is
  substituted for \<open>g\<close> under the binder \<open>y\<close>. The head of the lambda keeps
  \<open>Ref 1\<close>, which under \<open>y\<close> no longer means \<open>T\<close>, and the proof is rejected.
\<close>

lemma lambda_value_program_rejected:
  "thrown (program lambda_value_program) =
     Some (ProofFailed ''t''
       (Lambda (Ident ''Type'')
         (Application (Application (Ident ''F'') (Ref 1)) (Lambda (Ref 1) (Ref 1))))
       (Pi (Ident ''Type'')
         (Pi (Ref 1)
           (Application (Application (Ident ''Q'') (Ref 2)) (Lambda (Ref 1) (Ref 1)))))
       (Pi (Ident ''Type'')
         (Pi (Ref 1)
           (Application (Application (Ident ''Q'') (Ref 2)) (Lambda (Ref 2) (Ref 1))))))"
  by (simp add: program_def lambda_value_program_def initial_defs_def simp_value_unfold)

section \<open>The type of a reference\<close>

text \<open>
  Inside the stack, \<open>type_of\<close> returns the entry counted from the top, shifted with
  \<open>update_refs\<close> by the index of the reference.
\<close>

lemma type_of_Ref_update_refs:
  assumes lo: "1 \<le> i" and hi: "i \<le> int (length refs)"
  shows "type_of defs (Ref i) refs = Some (Inr (update_refs (rev refs ! (nat i - 1)) i))"
proof -
  from lo hi have idx: "nat (int (length refs) - i) = length refs - Suc (nat i - 1)"
    by linarith
  from lo hi have lt: "nat i - 1 < length refs" by linarith
  from lo hi have "0 \<le> int (length refs) - i \<and> int (length refs) - i < int (length refs)"
    by linarith
  then have "type_of defs (Ref i) refs
               = Some (Inr (update_refs (refs ! nat (int (length refs) - i)) i))"
    by (simp add: Let_def)
  also have "refs ! nat (int (length refs) - i) = rev refs ! (nat i - 1)"
    using lt by (simp add: rev_nth idx)
  finally show ?thesis .
qed

text \<open>
  Claim C2, as stated: \<open>type_of\<close> returns the entry with every free reference in it
  increased by the index, and so with the bound ones as they are. The shift has no
  notion of depth: in the entry \<open>(x : A) -> B x\<close> the reference to \<open>x\<close> is bound by
  the \<open>Pi\<close> of the entry and is increased all the same. And the shift returns a
  lambda as it is: in the entry \<open>P ((x : Type) => T)\<close> the reference to \<open>T\<close> is free
  and is not increased.
\<close>

theorem type_of_Ref_counterexample:
  "type_of Map.empty (Ref 1) [Pi (Ident ''A'') (Application (Ident ''B'') (Ref 1))]
     = Some (Inr (Pi (Ident ''A'') (Application (Ident ''B'') (Ref 2))))
   \<and> shift_free_refs (Pi (Ident ''A'') (Application (Ident ''B'') (Ref 1))) 1 0
     = Pi (Ident ''A'') (Application (Ident ''B'') (Ref 1))
   \<and> type_of Map.empty (Ref 1)
        [Ident ''Type'', Application (Ident ''P'') (Lambda (Ident ''Type'') (Ref 2))]
     = Some (Inr (Application (Ident ''P'') (Lambda (Ident ''Type'') (Ref 2))))
   \<and> shift_free_refs (Application (Ident ''P'') (Lambda (Ident ''Type'') (Ref 2))) 1 0
     = Application (Ident ''P'') (Lambda (Ident ''Type'') (Ref 3))"
  by (simp add: Let_def)

text \<open>
  Claim C2, amended: for every reference \<open>Ref i\<close> with \<open>i \<ge> 1\<close> and every stack with
  at least \<open>i\<close> entries whose \<open>i\<close>-th entry from the top contains no lambda,
  \<open>type_of\<close> returns that entry with every reference in it increased by \<open>i\<close>, the
  references bound by a \<open>Pi\<close> of the entry as well as the free ones.
\<close>

theorem type_of_Ref_in_range:
  "1 \<le> i \<Longrightarrow> i \<le> int (length refs) \<Longrightarrow>
   is_kernel (rev refs ! (nat i - 1)) \<Longrightarrow> \<not> has_lambda (rev refs ! (nat i - 1)) \<Longrightarrow>
   type_of defs (Ref i) refs = Some (Inr (shift_every_ref (rev refs ! (nat i - 1)) i))"
proof -
  assume "1 \<le> i" and "i \<le> int (length refs)"
  then have "type_of defs (Ref i) refs
               = Some (Inr (update_refs (rev refs ! (nat i - 1)) i))"
    by (rule type_of_Ref_update_refs)
  moreover assume "is_kernel (rev refs ! (nat i - 1))"
    and "\<not> has_lambda (rev refs ! (nat i - 1))"
  then have "update_refs (rev refs ! (nat i - 1)) i
               = shift_every_ref (rev refs ! (nat i - 1)) i"
    by (rule update_refs_without_lambda)
  ultimately show ?thesis by simp
qed

theorem type_of_Ref_in_range_witness:
  "(1::int) \<le> 2
   \<and> (2::int) \<le> int (length [Ident ''A'',
         Pi (Ident ''A'') (Application (Ident ''B'') (Application (Ref 1) (Ref 2))),
         Ident ''C''])
   \<and> is_kernel (Pi (Ident ''A'') (Application (Ident ''B'') (Application (Ref 1) (Ref 2))))
   \<and> \<not> has_lambda
         (Pi (Ident ''A'') (Application (Ident ''B'') (Application (Ref 1) (Ref 2))))
   \<and> type_of Map.empty (Ref 2)
        [Ident ''A'',
         Pi (Ident ''A'') (Application (Ident ''B'') (Application (Ref 1) (Ref 2))),
         Ident ''C'']
       = Some (Inr
           (Pi (Ident ''A'') (Application (Ident ''B'') (Application (Ref 3) (Ref 4)))))"
  using type_of_Ref_in_range
    [of 2 "[Ident ''A'',
            Pi (Ident ''A'') (Application (Ident ''B'') (Application (Ref 1) (Ref 2))),
            Ident ''C'']" Map.empty]
  by simp

text \<open>
  Claim C10. For every reference whose index exceeds the number of entries of the
  stack, \<open>type_of\<close> returns the reference itself and throws nothing.
\<close>

theorem type_of_Ref_beyond_stack:
  "i > int (length refs) \<Longrightarrow> type_of defs (Ref i) refs = Some (Inr (Ref i))"
  by (simp add: Let_def)

theorem type_of_Ref_beyond_stack_witness:
  "(3::int) > int (length [Ident ''A'', Ident ''B''])
   \<and> type_of Map.empty (Ref 3) [Ident ''A'', Ident ''B''] = Some (Inr (Ref 3))"
  using type_of_Ref_beyond_stack [of "[Ident ''A'', Ident ''B'']" 3 Map.empty]
  by simp

section \<open>Normalisation\<close>

lemma simp_value_without_redex: "\<not> has_redex v \<Longrightarrow> simp_value v = Some (Inr v)"
  by (induction v) (simp_all add: simp_value_unfold)

lemma simp_value_apply_const: "simp_value apply_const = Some (Inr (Ident ''c''))"
  by (simp add: apply_const_def simp_value_unfold)

lemma simp_value_apply_id_const: "simp_value apply_id_const = Some (Inr apply_const)"
  by (simp add: apply_id_const_def apply_const_def simp_value_unfold)

text \<open>
  Claim C4. The specification has normalisation idempotent: wherever \<open>simp_value\<close>
  terminates, normalising its result again changes nothing. \<open>simp_value\<close> tests
  whether the function of an application is a lambda before it normalises that
  function. When the function is a lambda, the result of the substitution is normalised
  again; when it is not, the application is rebuilt from the two normalised parts and
  not looked at again, also when the function has just been normalised to a lambda. On
  \<open>apply_id_const\<close> the first call returns \<open>apply_const\<close>, an application of a
  lambda, and the second call reduces that to \<open>c\<close>.
\<close>

theorem simp_value_twice_differs:
  "simp_value apply_id_const = Some (Inr apply_const)
   \<and> simp_value_twice apply_id_const = Some (Inr (Ident ''c''))
   \<and> simp_value_twice apply_id_const \<noteq> simp_value apply_id_const"
proof -
  have a: "simp_value apply_id_const = Some (Inr apply_const)"
    by (rule simp_value_apply_id_const)
  have b: "simp_value_twice apply_id_const = Some (Inr (Ident ''c''))"
    by (simp add: simp_value_twice_def a simp_value_apply_const)
  have c: "Ident ''c'' \<noteq> apply_const"
    by (simp add: apply_const_def)
  from a b c show ?thesis by simp
qed

text \<open>
  The same happens to a type that the checker computes. For the last declaration of
  \<open>redex_argument_program\<close>, \<open>apply_type\<close> substitutes the argument into
  \<open>P (f zero)\<close> and normalises: the argument is an application, not a lambda, so it
  is normalised to the identity function and the application to \<open>zero\<close> is rebuilt
  around it and left. A second call would reduce it to \<open>P zero\<close>.
\<close>

lemma simp_value_leaves_redex_in_type:
  "simp_value (Application (Ident ''P'')
       (Application
          (Application (Lambda (Pi (Ident ''Nat'') (Ident ''Nat'')) (Ref 1))
             (Lambda (Ident ''Nat'') (Ref 1)))
          (Ident ''zero'')))
     = Some (Inr (Application (Ident ''P'')
         (Application (Lambda (Ident ''Nat'') (Ref 1)) (Ident ''zero''))))
   \<and> simp_value (Application (Ident ''P'')
         (Application (Lambda (Ident ''Nat'') (Ref 1)) (Ident ''zero'')))
     = Some (Inr (Application (Ident ''P'') (Ident ''zero'')))"
  by (simp add: simp_value_unfold)

text \<open>
  So the proof is rejected: its computed type still holds the application of the
  identity function to \<open>zero\<close>, where the declared type says \<open>zero\<close>.
\<close>

lemma redex_argument_program_rejected:
  "thrown (program redex_argument_program) =
     Some (ProofFailed ''t''
       (Application (Ident ''ax'')
          (Application (Lambda (Pi (Ident ''Nat'') (Ident ''Nat'')) (Ref 1))
             (Lambda (Ident ''Nat'') (Ref 1))))
       (Application (Ident ''P'')
          (Application (Lambda (Ident ''Nat'') (Ref 1)) (Ident ''zero'')))
       (Application (Ident ''P'') (Ident ''zero'')))"
  by (simp add: program_def redex_argument_program_def initial_defs_def
        simp_value_unfold Let_def)

text \<open>With the argument reduced by hand the same proof passes.\<close>

lemma reduced_argument_program_passes:
  "finished (program reduced_argument_program)
   \<and> effects_of (program reduced_argument_program) = [ConsoleLog ''Proof 't' passed'']"
  by (simp add: program_def reduced_argument_program_def initial_defs_def
        simp_value_unfold Let_def)

section \<open>Lambdas under substitution\<close>

lemma replace_has_lambda_not_Inr:
  "has_lambda tail \<Longrightarrow> replace tail val depth \<noteq> Inr r"
  by (induction tail arbitrary: depth r) (auto split: sum.splits)

lemma replace_has_lambda: "has_lambda tail \<Longrightarrow> isl (replace tail val depth)"
  using replace_has_lambda_not_Inr [of tail val depth]
  by (cases "replace tail val depth") auto

text \<open>
  The self application never normalises: every call of \<open>simp_value\<close> on \<open>omega\<close>
  ends in a call on \<open>omega\<close>.
\<close>

lemma simp_value_omega_aux:
  assumes run: "simp_value x = Some y"
  shows "x \<noteq> omega \<and>
     (x = dup \<or> x = Ident ''T'' \<or> x = Application (Ref 1) (Ref 1) \<or> x = Ref 1
        \<longrightarrow> y = Inr x)"
proof (rule simp_value.raw_induct
    [where P = "\<lambda>x y. x \<noteq> omega \<and>
       (x = dup \<or> x = Ident ''T'' \<or> x = Application (Ref 1) (Ref 1) \<or> x = Ref 1
          \<longrightarrow> y = Inr x)", OF _ run], goal_cases)
  case (1 f x y)
  have ih: "\<And>a b. f a = Some b \<Longrightarrow> a \<noteq> omega"
    "\<And>b. f dup = Some b \<Longrightarrow> b = Inr dup"
    "\<And>b. f (Ident ''T'') = Some b \<Longrightarrow> b = Inr (Ident ''T'')"
    "\<And>b. f (Application (Ref 1) (Ref 1)) = Some b \<Longrightarrow> b = Inr (Application (Ref 1) (Ref 1))"
    "\<And>b. f (Ref 1) = Some b \<Longrightarrow> b = Inr (Ref 1)"
    using 1(1) by blast+
  have a: "x \<noteq> omega"
  proof
    assume x: "x = omega"
    from 1(2) obtain r where r: "f dup = Some r"
      unfolding x omega_def dup_def by (auto split: Option.bind_splits)
    then have "r = Inr dup" by (rule ih(2))
    with 1(2) r have "f omega = Some y"
      unfolding x omega_def dup_def by simp
    then show False using ih(1) by blast
  qed
  have b: "y = Inr x" if "x = dup"
    using 1(2) ih(3,4) unfolding that dup_def
    by (auto split: Option.bind_splits sum.splits)
  have c: "y = Inr x" if "x = Ident ''T''"
    using 1(2) unfolding that by simp
  have d: "y = Inr x" if "x = Application (Ref 1) (Ref 1)"
    using 1(2) ih(5) unfolding that
    by (auto split: Option.bind_splits sum.splits)
  have e: "y = Inr x" if "x = Ref 1"
    using 1(2) unfolding that by simp
  from a b c d e show ?case by blast
qed

lemma simp_value_omega: "simp_value omega = None"
  using simp_value_omega_aux [of omega] by (cases "simp_value omega") auto

text \<open>
  Claim C9, as stated: \<open>simp_value\<close> throws on every application of a lambda whose
  body contains a lambda. The argument is normalised before the substitution is tried,
  so with the argument \<open>omega\<close> the call never returns and nothing is thrown.
\<close>

theorem simp_value_redex_counterexample:
  "has_lambda (Lambda (Ident ''T'') (Ref 1))
   \<and> simp_value (Application (Lambda (Ident ''T'') (Lambda (Ident ''T'') (Ref 1))) omega)
       = None"
  by (simp add: simp_value_Application_Lambda simp_value_omega)

text \<open>
  Claim C9, amended: for every tail that contains a lambda at any position, every
  value and every depth, \<open>replace\<close> throws; and \<open>simp_value\<close> throws on every
  application of a lambda whose body contains a lambda, provided the normalisation of
  the argument terminates (by returning or by throwing).
\<close>

theorem replace_throws_on_lambda:
  "(has_lambda tail \<longrightarrow> isl (replace tail val depth))
   \<and> (has_lambda b \<and> simp_value arg \<noteq> None
        \<longrightarrow> (\<exists>err. simp_value (Application (Lambda h b) arg) = Some (Inl err)))"
proof (intro conjI impI)
  assume "has_lambda tail"
  then show "isl (replace tail val depth)" by (rule replace_has_lambda)
next
  assume a: "has_lambda b \<and> simp_value arg \<noteq> None"
  then obtain r where r: "simp_value arg = Some r" by auto
  show "\<exists>err. simp_value (Application (Lambda h b) arg) = Some (Inl err)"
  proof (cases r)
    case (Inl e)
    with r show ?thesis by (simp add: simp_value_Application_Lambda)
  next
    case (Inr v')
    from a have "isl (replace b v' 1)" by (simp add: replace_has_lambda)
    then obtain e where "replace b v' 1 = Inl e" by (cases "replace b v' 1") auto
    with r Inr show ?thesis by (simp add: simp_value_Application_Lambda)
  qed
qed

theorem replace_throws_on_lambda_witness:
  "has_lambda (Pi (Ident ''A'') (Lambda (Ident ''A'') (Ref 1)))
   \<and> replace (Pi (Ident ''A'') (Lambda (Ident ''A'') (Ref 1))) (Ident ''a'') 1
       = Inl (ReplaceError ''lambda'')
   \<and> simp_value (Ident ''a'') \<noteq> None
   \<and> simp_value
        (Application
           (Lambda (Ident ''A'') (Pi (Ident ''A'') (Lambda (Ident ''A'') (Ref 1))))
           (Ident ''a''))
       = Some (Inl (ReplaceError ''lambda''))"
  using replace_throws_on_lambda
    [of "Pi (Ident ''A'') (Lambda (Ident ''A'') (Ref 1))" "Ident ''a''" 1
        "Pi (Ident ''A'') (Lambda (Ident ''A'') (Ref 1))" "Ident ''a''" "Ident ''A''"]
  by (simp add: simp_value_unfold)

section \<open>The driver\<close>

lemma check_statement_updates:
  "check_statement defs stmt = Some (Inr (defs', out)) \<Longrightarrow>
   \<exists>en. defs' = defs(stmt_ident stmt \<mapsto> en)"
  by (cases stmt)
     (auto split: sum.splits option.splits if_splits)

lemma for_loop_keeps_entry:
  "for_loop defs fx rest = Some (Finished defs' fx') \<Longrightarrow>
   name \<notin> set (map stmt_ident rest) \<Longrightarrow> defs' name = defs name"
proof (induction rest arbitrary: defs fx)
  case Nil
  then show ?case by simp
next
  case (Cons stmt rest)
  from Cons.prems(1) obtain d out where
    step: "check_statement defs stmt = Some (Inr (d, out))"
    and loop: "for_loop d (fx @ out) rest = Some (Finished defs' fx')"
    by (auto split: option.splits sum.splits)
  from step obtain en where d: "d = defs(stmt_ident stmt \<mapsto> en)"
    using check_statement_updates by blast
  from Cons.prems(2) have "name \<noteq> stmt_ident stmt" and "name \<notin> set (map stmt_ident rest)"
    by auto
  with Cons.IH [OF loop] d show ?case by simp
qed

text \<open>
  Claim C5, as stated: after \<^verbatim>\<open>Nat : Type; zero : Nat := SORRY Nat;\<close> the body
  registered for \<open>zero\<close> is the identifier \<open>Nat\<close>, the normal form of \<open>SORRY Nat\<close>.
  The driver stores the renamed body as it is, and \<open>simp_value\<close> leaves an application
  of the identifier \<open>SORRY\<close> as it is, so the body is not \<open>Nat\<close> and neither is its
  normal form.
\<close>

theorem sorry_program_body_counterexample:
  "map_option def (registered (program sorry_program) ''zero'') \<noteq> Some (Some (Ident ''Nat''))
   \<and> simp_value (Application (Ident ''SORRY'') (Ident ''Nat'')) \<noteq> Some (Inr (Ident ''Nat''))"
  by (simp add: program_def sorry_program_def initial_defs_def simp_value_unfold)

text \<open>
  Claim C5, amended: processing \<^verbatim>\<open>Nat : Type; zero : Nat := SORRY Nat;\<close> succeeds, the
  check of \<open>zero\<close> passes and prints its line, and the final environment registers
  \<open>zero\<close> with type \<open>Nat\<close> and with the body \<open>SORRY Nat\<close> as renamed, which is its
  own normal form; \<open>Nat\<close> is the type computed for \<open>SORRY Nat\<close>.
\<close>

theorem sorry_program_passes:
  "finished (program sorry_program)
   \<and> effects_of (program sorry_program) = [ConsoleLog ''Proof 'zero' passed'']
   \<and> registered (program sorry_program) ''zero''
       = Some \<lparr>ty = Ident ''Nat'',
                def = Some (Application (Ident ''SORRY'') (Ident ''Nat''))\<rparr>
   \<and> simp_value (Application (Ident ''SORRY'') (Ident ''Nat''))
       = Some (Inr (Application (Ident ''SORRY'') (Ident ''Nat'')))
   \<and> type_of (initial_defs(''Nat'' \<mapsto> \<lparr>ty = Ident ''Type'', def = None\<rparr>))
        (Application (Ident ''SORRY'') (Ident ''Nat'')) []
       = Some (Inr (Ident ''Nat''))"
  by (simp add: program_def sorry_program_def initial_defs_def simp_value_unfold)

text \<open>
  Claim C6, as stated: a declaration without a body never fails. Its type is renamed
  first, and renaming throws on an identifier that is neither bound nor declared: the
  file \<^verbatim>\<open>bad : Nat;\<close> stops with the error that \<open>Nat\<close> is not defined.
\<close>

theorem bad_program_counterexample:
  "thrown (program bad_program) = Some (NotDefined ''Nat'')"
  by (simp add: program_def bad_program_def initial_defs_def)

text \<open>
  Claim C6, amended: a declaration \<open>name : \<tau>\<close> without a body fails exactly when
  renaming \<open>\<tau>\<close> fails, with that error. When renaming returns \<open>\<tau>'\<close>, the declaration
  is registered with type \<open>\<tau>'\<close> and no body, nothing is checked and nothing is thrown;
  from then on, and after any further declarations that do not declare \<open>name\<close> again,
  \<open>type_of\<close> of the identifier \<open>name\<close> returns \<open>\<tau>'\<close>, under any stack.
\<close>

theorem declaration_without_body:
  "(rename defs tau [] = Inl err
      \<longrightarrow> check_statement defs (Statement name tau None) = Some (Inl err))
   \<and> (rename defs tau [] = Inr tau'
      \<longrightarrow> check_statement defs (Statement name tau None)
            = Some (Inr (defs(name \<mapsto> \<lparr>ty = tau', def = None\<rparr>), []))
          \<and> type_of (defs(name \<mapsto> \<lparr>ty = tau', def = None\<rparr>)) (Ident name) refs
              = Some (Inr tau')
          \<and> (for_loop (defs(name \<mapsto> \<lparr>ty = tau', def = None\<rparr>)) fx rest
                = Some (Finished defs' fx')
              \<and> name \<notin> set (map stmt_ident rest)
              \<longrightarrow> type_of defs' (Ident name) refs = Some (Inr tau')))"
proof (intro conjI impI)
  assume "rename defs tau [] = Inl err"
  then show "check_statement defs (Statement name tau None) = Some (Inl err)"
    by simp
next
  assume "rename defs tau [] = Inr tau'"
  then show "check_statement defs (Statement name tau None)
               = Some (Inr (defs(name \<mapsto> \<lparr>ty = tau', def = None\<rparr>), []))"
    by simp
next
  show "type_of (defs(name \<mapsto> \<lparr>ty = tau', def = None\<rparr>)) (Ident name) refs
          = Some (Inr tau')"
    by simp
next
  assume "for_loop (defs(name \<mapsto> \<lparr>ty = tau', def = None\<rparr>)) fx rest
            = Some (Finished defs' fx')
          \<and> name \<notin> set (map stmt_ident rest)"
  then have "defs' name = (defs(name \<mapsto> \<lparr>ty = tau', def = None\<rparr>)) name"
    using for_loop_keeps_entry by blast
  then show "type_of defs' (Ident name) refs = Some (Inr tau')"
    by simp
qed

theorem declaration_without_body_witness:
  "rename initial_defs (Ident ''Nat'') [] = Inl (NotDefined ''Nat'')
   \<and> check_statement initial_defs (Statement ''bad'' (Ident ''Nat'') None)
       = Some (Inl (NotDefined ''Nat''))
   \<and> rename initial_defs (Ident ''Type'') [] = Inr (Ident ''Type'')
   \<and> check_statement initial_defs (Statement ''Nat'' (Ident ''Type'') None)
       = Some (Inr (initial_defs(''Nat'' \<mapsto> \<lparr>ty = Ident ''Type'', def = None\<rparr>), []))
   \<and> for_loop (initial_defs(''Nat'' \<mapsto> \<lparr>ty = Ident ''Type'', def = None\<rparr>)) []
        [Statement ''zero'' (Ident ''Nat'') None]
       = Some (Finished
           (initial_defs(''Nat'' \<mapsto> \<lparr>ty = Ident ''Type'', def = None\<rparr>,
                         ''zero'' \<mapsto> \<lparr>ty = Ident ''Nat'', def = None\<rparr>)) [])
   \<and> ''Nat'' \<notin> set (map stmt_ident [Statement ''zero'' (Ident ''Nat'') None])
   \<and> type_of (initial_defs(''Nat'' \<mapsto> \<lparr>ty = Ident ''Type'', def = None\<rparr>,
                            ''zero'' \<mapsto> \<lparr>ty = Ident ''Nat'', def = None\<rparr>))
        (Ident ''Nat'') [] = Some (Inr (Ident ''Type''))"
proof -
  have r1: "rename initial_defs (Ident ''Nat'') [] = Inl (NotDefined ''Nat'')"
    by (simp add: initial_defs_def)
  have r2: "rename initial_defs (Ident ''Type'') [] = Inr (Ident ''Type'')"
    by (simp add: initial_defs_def)
  have l: "for_loop (initial_defs(''Nat'' \<mapsto> \<lparr>ty = Ident ''Type'', def = None\<rparr>)) []
        [Statement ''zero'' (Ident ''Nat'') None]
       = Some (Finished
           (initial_defs(''Nat'' \<mapsto> \<lparr>ty = Ident ''Type'', def = None\<rparr>,
                         ''zero'' \<mapsto> \<lparr>ty = Ident ''Nat'', def = None\<rparr>)) [])"
    by (simp add: initial_defs_def)
  have n: "''Nat'' \<notin> set (map stmt_ident [Statement ''zero'' (Ident ''Nat'') None])"
    by simp
  from r1 have a: "check_statement initial_defs (Statement ''bad'' (Ident ''Nat'') None)
       = Some (Inl (NotDefined ''Nat''))"
    using declaration_without_body
      [of initial_defs "Ident ''Nat''" "NotDefined ''Nat''" "''bad''"]
    by blast
  from r2 l n have b: "check_statement initial_defs (Statement ''Nat'' (Ident ''Type'') None)
       = Some (Inr (initial_defs(''Nat'' \<mapsto> \<lparr>ty = Ident ''Type'', def = None\<rparr>), []))"
    and c: "type_of (initial_defs(''Nat'' \<mapsto> \<lparr>ty = Ident ''Type'', def = None\<rparr>,
                            ''zero'' \<mapsto> \<lparr>ty = Ident ''Nat'', def = None\<rparr>))
        (Ident ''Nat'') [] = Some (Inr (Ident ''Type''))"
    using declaration_without_body
      [of initial_defs "Ident ''Type''" _ "''Nat''" "Ident ''Type''" "[]" "[]"
          "[Statement ''zero'' (Ident ''Nat'') None]"
          "initial_defs(''Nat'' \<mapsto> \<lparr>ty = Ident ''Type'', def = None\<rparr>,
                         ''zero'' \<mapsto> \<lparr>ty = Ident ''Nat'', def = None\<rparr>)" "[]"]
    by blast+
  from r1 r2 l n a b c show ?thesis by blast
qed

text \<open>The loop of the driver adds printed lines only.\<close>

lemma check_statement_prints:
  "check_statement defs stmt = Some (Inr (defs', out)) \<Longrightarrow> filter is_write out = []"
  by (cases stmt) (auto split: sum.splits option.splits if_splits)

lemma for_loop_writes_nothing:
  "filter is_write fx = [] \<Longrightarrow> files_written (for_loop defs fx rest) = []"
proof (induction rest arbitrary: defs fx)
  case Nil
  then show ?case by (simp add: files_written_def)
next
  case (Cons stmt rest)
  show ?case
  proof (cases "check_statement defs stmt")
    case None
    then show ?thesis by (simp add: files_written_def)
  next
    case (Some r)
    show ?thesis
    proof (cases r)
      case (Inl e)
      with Some Cons.prems show ?thesis by (simp add: files_written_def)
    next
      case (Inr p)
      obtain d out where p: "p = (d, out)" by (cases p)
      with Some Inr have "filter is_write out = []"
        using check_statement_prints by blast
      with Cons.prems have "filter is_write (fx @ out) = []" by simp
      from Cons.IH [OF this] Some Inr p show ?thesis by simp
    qed
  qed
qed

lemma program_writes_nothing: "files_written (program ast) = []"
  by (simp add: program_def for_loop_writes_nothing)

text \<open>
  Claim C7. The specification has the program write the final environment to
  \<^verbatim>\<open>./dump.json\<close> once every declaration has been checked. The program imports
  \<^verbatim>\<open>write\<close> and never calls it: the run on \<^verbatim>\<open>Nat : Type;\<close> reaches the end of the
  loop and has written no file.
\<close>

theorem nat_program_writes_no_file:
  "finished (program nat_program) \<and> files_written (program nat_program) = []"
  by (simp add: program_def nat_program_def initial_defs_def files_written_def)

section \<open>Block comments\<close>

lemma block_cmt_rest_plain:
  "CHR ''*'' \<notin> set body \<Longrightarrow>
   block_cmt_rest (body @ CHR ''*'' # CHR ''/'' # rest) = Some (length body + 2)"
  by (induction body) auto

text \<open>
  A comment whose text has no \<^verbatim>\<open>*\<close> is lexed as the specification says, up to and
  including the first \<^verbatim>\<open>*/\<close>.
\<close>

lemma lex_block_comment_plain:
  assumes "CHR ''*'' \<notin> set body"
  shows "lex (''/*'' @ body @ ''*/'' @ rest) 0
           = Inr (TComment (''/*'' @ body @ ''*/''), length body + 4)"
proof -
  let ?s = "''/*'' @ body @ ''*/'' @ rest"
  have "block_cmt_rest (drop 2 ?s) = Some (length body + 2)"
    using block_cmt_rest_plain [OF assms] by simp
  then have "block_cmt_regex ?s = Some (''/*'' @ body @ ''*/'')"
    by (simp add: block_cmt_regex_def)
  moreover have "ident_regex ?s = None" "ws_regex ?s = None" "line_cmt_regex ?s = None"
    by (simp_all add: ident_regex_def ws_regex_def line_cmt_regex_def
          is_ident_char_def is_ws_char_def)
  ultimately show ?thesis
    by (simp add: lex_def)
qed

text \<open>
  Claim C8. The specification has a block comment end at the first \<^verbatim>\<open>*/\<close> after
  its \<^verbatim>\<open>/*\<close>. The pattern of the lexer consumes a \<^verbatim>\<open>*\<close> together with the
  character after it, so in \<^verbatim>\<open>**/\<close> the second star is swallowed and the \<^verbatim>\<open>/\<close>
  that follows no longer closes the comment. The text \<^verbatim>\<open>/***/\<close> starts with
  \<^verbatim>\<open>/*\<close> and contains \<^verbatim>\<open>*/\<close> later, and the lexer throws on it.
\<close>

theorem lex_block_comment_two_stars:
  "lex ''/***/'' 0 = Inl LexerConsumedNoInput"
  by (simp add: lex_def ident_regex_def ws_regex_def line_cmt_regex_def
        block_cmt_regex_def ops_def is_ident_char_def is_ws_char_def)

text \<open>
  When another \<^verbatim>\<open>*/\<close> follows, the comment runs on to it, past the first one.
\<close>

lemma lex_block_comment_runs_on:
  "lex ''/* a **/ b */ c'' 0 = Inr (TComment ''/* a **/ b */'', 13)"
  by (simp add: lex_def ident_regex_def ws_regex_def line_cmt_regex_def
        block_cmt_regex_def ops_def is_ident_char_def is_ws_char_def)

end
